theory Spec2Isabelle
  imports Main "HOL-Library.Word"
begin

unbundle bit_operations_syntax

section \<open>Bare-metal smoke tests of the SoC: GPIO readback, GPIO direction/write/read, timer\<close>

text \<open>
  The three programs are straight-line sequences of volatile loads and stores at fixed
  addresses. What a program does is the ordered list of its volatile accesses (to the
  registers and, in the busy-wait of one test, to a volatile local counter), so the state
  that is threaded through every function below is that list, the trace. The hardware is
  outside the programs: it is a parameter, a function giving the value of a load from the
  accesses made so far and the address loaded.
\<close>

subsection \<open>Data model\<close>

type_synonym u32 = "32 word"

datatype event =
    Write u32 u32   \<comment> \<open>volatile store: address, value\<close>
  | Read u32 u32    \<comment> \<open>volatile load: address, value returned by the hardware\<close>
  | Barrier         \<comment> \<open>\<^verbatim>\<open>asm volatile ("" ::: "memory")\<close>\<close>
  | Ecall           \<comment> \<open>\<^verbatim>\<open>asm volatile ("ecall")\<close>, the simulation-termination trap\<close>
  | LocalStore int  \<comment> \<open>volatile store to the local counter of the busy-wait: value\<close>
  | LocalLoad int   \<comment> \<open>volatile load of the local counter of the busy-wait: value\<close>

type_synonym trace = "event list"

type_synonym hw = "trace \<Rightarrow> u32 \<Rightarrow> u32"

text \<open>
  Undefined behaviour of the C abstract machine is an error value, so that a definition
  cannot read outside an array or shift by an out-of-range amount silently.
\<close>

datatype error = OutOfBounds | ShiftOutOfRange

definition store :: "u32 \<Rightarrow> u32 \<Rightarrow> trace \<Rightarrow> trace" where
  "store a v tr = tr @ [Write a v]"

definition load :: "hw \<Rightarrow> u32 \<Rightarrow> trace \<Rightarrow> u32 \<times> trace" where
  "load h a tr = (let v = h tr a in (v, tr @ [Read a v]))"

definition barrier :: "trace \<Rightarrow> trace" where
  "barrier tr = tr @ [Barrier]"

definition ecall :: "trace \<Rightarrow> trace" where
  "ecall tr = tr @ [Ecall]"

subsection \<open>Register addresses\<close>

text \<open>\<^verbatim>\<open>gpio_test.c\<close>, lines 3 to 5.\<close>

definition IO_BASE :: u32 where
  "IO_BASE = 0x00400000"

definition UART_ADDR :: u32 where
  "UART_ADDR = IO_BASE + 0x04"

definition GPIO_ADDR :: u32 where
  "GPIO_ADDR = IO_BASE + 0x20"

text \<open>\<^verbatim>\<open>gpio_ctrl_test.c\<close>, lines 4 to 8.\<close>

definition GPIO_BASE :: u32 where
  "GPIO_BASE = 0x00400020"

definition GPIO_DATA :: u32 where
  "GPIO_DATA = GPIO_BASE + 0x00"

definition GPIO_DIR :: u32 where
  "GPIO_DIR = GPIO_BASE + 0x04"

definition GPIO_READ :: u32 where
  "GPIO_READ = GPIO_BASE + 0x08"

text \<open>\<^verbatim>\<open>timer_test2.c\<close>, lines 3 to 6.\<close>

definition TIMER_BASE :: u32 where
  "TIMER_BASE = 0x00400040"

definition TIMER_CTRL :: u32 where
  "TIMER_CTRL = TIMER_BASE + 0x00"

definition TIMER_LOAD :: u32 where
  "TIMER_LOAD = TIMER_BASE + 0x04"

definition TIMER_STAT :: u32 where
  "TIMER_STAT = TIMER_BASE + 0x0C"

subsection \<open>Polled UART output (\<^verbatim>\<open>gpio_test.c\<close>)\<close>

text \<open>
  \<^verbatim>\<open>uart_putc\<close> stores \<^verbatim>\<open>(uint32_t)c\<close> to the UART data register. Plain \<^verbatim>\<open>char\<close> is
  unsigned on RISC-V, so the conversion is \<^const>\<open>of_char\<close>, the code of the character.
\<close>

definition uart_putc :: "char \<Rightarrow> trace \<Rightarrow> trace" where
  "uart_putc c tr = store UART_ADDR (of_char c) tr"

text \<open>
  \<^verbatim>\<open>const char hex[] = "0123456789ABCDEF"\<close> is an array of 17 characters: the 16 digits
  and the terminator.
\<close>

definition hex :: string where
  "hex = ''0123456789ABCDEF'' @ [CHR 0x00]"

definition hex_at :: "nat \<Rightarrow> error + char" where
  "hex_at n = (if n < length hex then Inr (hex ! n) else Inl OutOfBounds)"

text \<open>\<^verbatim>\<open>v >> n\<close> on a 32-bit unsigned value with an \<^verbatim>\<open>int\<close> shift count.\<close>

definition shr :: "u32 \<Rightarrow> int \<Rightarrow> error + u32" where
  "shr v n = (if 0 \<le> n \<and> n < 32 then Inr (drop_bit (nat n) v) else Inl ShiftOutOfRange)"

text \<open>
  The loop \<^verbatim>\<open>for (int i = 7; i >= 0; i--) uart_putc(hex[(v >> (i * 4)) & 0xF]);\<close>
  with its counter as an argument. The counter stays between -1 and 7, so \<^typ>\<open>int\<close>
  stands for the 32-bit \<^verbatim>\<open>int\<close> without wrap-around.
\<close>

function print_hex_loop :: "u32 \<Rightarrow> int \<Rightarrow> trace \<Rightarrow> error + trace" where
  "print_hex_loop v i tr =
     (if i \<ge> 0 then
        (case shr v (i * 4) of
           Inl e \<Rightarrow> Inl e
         | Inr w \<Rightarrow>
            (case hex_at (unat (w AND 0xF)) of
               Inl e \<Rightarrow> Inl e
             | Inr c \<Rightarrow> print_hex_loop v (i - 1) (uart_putc c tr)))
      else Inr tr)"
  by pat_completeness auto
termination
  by (relation "measure (\<lambda>(v, i, tr). nat (i + 1))") auto

definition print_hex :: "u32 \<Rightarrow> trace \<Rightarrow> error + trace" where
  "print_hex v tr = print_hex_loop v 7 tr"

text \<open>
  \<^verbatim>\<open>while (*s) uart_putc(*s++);\<close> The argument is the array that \<^verbatim>\<open>s\<close> points into,
  from \<^verbatim>\<open>s\<close> on; \<^verbatim>\<open>s++\<close> moves to its tail. Reading past the end of the array, which
  happens when it holds no terminator, is the error \<^const>\<open>OutOfBounds\<close>.
\<close>

fun print_string :: "string \<Rightarrow> trace \<Rightarrow> error + trace" where
  "print_string [] tr = Inl OutOfBounds"
| "print_string (c # s) tr =
     (if c \<noteq> CHR 0x00 then print_string s (uart_putc c tr) else Inr tr)"

text \<open>A string literal \<^verbatim>\<open>"..."\<close> is the array of its characters and the terminator.\<close>

definition literal :: "string \<Rightarrow> string" where
  "literal cs = cs @ [CHR 0x00]"

subsection \<open>The readback test (\<^verbatim>\<open>gpio_test.c\<close>)\<close>

definition gpio_test_main :: "hw \<Rightarrow> trace \<Rightarrow> error + (int \<times> trace)" where
  "gpio_test_main h tr0 =
     (let tr1 = store GPIO_ADDR 0xA5 tr0;
          tr2 = barrier tr1;
          (val, tr3) = load h GPIO_ADDR tr2
      in case print_string (literal ''GPIO readback = '') tr3 of
           Inl e \<Rightarrow> Inl e
         | Inr tr4 \<Rightarrow>
            (case print_hex val tr4 of
               Inl e \<Rightarrow> Inl e
             | Inr tr5 \<Rightarrow>
                (case print_string (literal [CHR 0x0A]) tr5 of
                   Inl e \<Rightarrow> Inl e
                 | Inr tr6 \<Rightarrow> Inr (0, ecall tr6))))"

subsection \<open>The direction/write/read test (\<^verbatim>\<open>gpio_ctrl_test.c\<close>)\<close>

text \<open>
  Modelled from the spec: \<^verbatim>\<open>print_string\<close> of \<^verbatim>\<open>io.h\<close>, which \<^verbatim>\<open>gpio_ctrl_test.c\<close>
  calls and which is not among the sources. The spec (4.2, Polled UART output) describes
  it as the operation that \<^verbatim>\<open>gpio_test.c\<close> defines under the same name: it writes each
  character of a null-terminated sequence in order, stopping at the terminator, each
  character being one store to the UART data register at base + 0x04, with no status poll.
\<close>

definition io_print_string :: "string \<Rightarrow> trace \<Rightarrow> error + trace" where
  "io_print_string s tr = print_string s tr"

text \<open>
  Modelled from the spec: \<^verbatim>\<open>print_hex\<close> of \<^verbatim>\<open>io.h\<close>, which \<^verbatim>\<open>gpio_ctrl_test.c\<close> calls
  and which is not among the sources. The spec (4.2) describes it as the operation that
  \<^verbatim>\<open>gpio_test.c\<close> defines under the same name: it writes a 32-bit value as exactly 8
  uppercase hexadecimal digits, most significant nibble first, through the same UART store.
\<close>

definition io_print_hex :: "u32 \<Rightarrow> trace \<Rightarrow> error + trace" where
  "io_print_hex v tr = print_hex v tr"

text \<open>
  \<^verbatim>\<open>for (volatile int i = 0; i < 1000; i++);\<close> The counter is a volatile local
  variable, so each of its accesses is an event of the trace: the loads and stores can be
  neither removed nor reordered. The argument \<open>i\<close> is the value the variable holds. The
  test \<^verbatim>\<open>i < 1000\<close> is one load; \<^verbatim>\<open>i++\<close> is one load and one store of the value
  loaded plus 1. The initial store of 0 is made by the caller, before the loop. The
  counter stays between 0 and 1000, so \<^typ>\<open>int\<close> stands for the 32-bit \<^verbatim>\<open>int\<close>
  without wrap-around.
\<close>

function delay :: "int \<Rightarrow> trace \<Rightarrow> int \<times> trace" where
  "delay i tr =
     (if i < 1000 then delay (i + 1) (tr @ [LocalLoad i, LocalLoad i, LocalStore (i + 1)])
      else (i, tr @ [LocalLoad i]))"
  by pat_completeness auto
termination
  by (relation "measure (\<lambda>(i, tr). nat (1000 - i))") auto

definition gpio_ctrl_test_main :: "hw \<Rightarrow> trace \<Rightarrow> error + (int \<times> trace)" where
  "gpio_ctrl_test_main h tr0 =
     (let tr1 = store GPIO_DIR 0x0000001F tr0;
          tr2 = store GPIO_DATA 0x0000000A tr1;
          (i, tr3) = delay 0 (tr2 @ [LocalStore 0]);
          (val, tr4) = load h GPIO_READ tr3
      in case io_print_string (literal ''GPIO READ = '') tr4 of
           Inl e \<Rightarrow> Inl e
         | Inr tr5 \<Rightarrow>
            (case io_print_hex val tr5 of
               Inl e \<Rightarrow> Inl e
             | Inr tr6 \<Rightarrow>
                (case io_print_string (literal [CHR 0x0A]) tr6 of
                   Inl e \<Rightarrow> Inl e
                 | Inr tr7 \<Rightarrow> Inr (0, ecall tr7))))"

subsection \<open>The timer test (\<^verbatim>\<open>timer_test2.c\<close>)\<close>

text \<open>Lines 11 to 17: the three stores before the loop.\<close>

definition timer_init :: "trace \<Rightarrow> trace" where
  "timer_init tr0 =
     (let tr1 = store TIMER_CTRL 0 tr0;
          tr2 = store TIMER_LOAD 12000000 tr1
      in store TIMER_CTRL 0x3 tr2)"

text \<open>Lines 20 to 22: the body of the loop.\<close>

definition timer_body :: "hw \<Rightarrow> trace \<Rightarrow> trace" where
  "timer_body h tr =
     (let (s, tr1) = load h TIMER_STAT tr
      in if s AND 0x1 \<noteq> 0 then store TIMER_STAT 0x1 tr1 else tr1)"

text \<open>
  \<^verbatim>\<open>while (1) { ... }\<close>: the loop has no exit, so it is a partial function, whose value is
  \<^const>\<open>None\<close> where the loop does not return.
\<close>

partial_function (option) timer_loop :: "hw \<Rightarrow> trace \<Rightarrow> (int \<times> trace) option" where
  "timer_loop h tr = timer_loop h (timer_body h tr)"

definition timer_test2_main :: "hw \<Rightarrow> trace \<Rightarrow> (int \<times> trace) option" where
  "timer_test2_main h tr0 = timer_loop h (timer_init tr0)"

text \<open>
  What the timer test has done when the loop body has run \<open>n\<close> times: the program never
  returns a trace, so its accesses are observed on these prefixes.
\<close>

definition timer_test2_run :: "nat \<Rightarrow> hw \<Rightarrow> trace \<Rightarrow> trace" where
  "timer_test2_run n h tr0 = (timer_body h ^^ n) (timer_init tr0)"

subsection \<open>Observations on a trace\<close>

fun addr_of :: "event \<Rightarrow> u32 option" where
  "addr_of (Write a v) = Some a"
| "addr_of (Read a v) = Some a"
| "addr_of Barrier = None"
| "addr_of Ecall = None"
| "addr_of (LocalStore v) = None"
| "addr_of (LocalLoad v) = None"

text \<open>The addresses a trace accesses, in order.\<close>

definition addresses :: "trace \<Rightarrow> u32 list" where
  "addresses tr = List.map_filter addr_of tr"

fun written_to :: "u32 \<Rightarrow> event \<Rightarrow> u32 option" where
  "written_to a (Write b v) = (if b = a then Some v else None)"
| "written_to a (Read b v) = None"
| "written_to a Barrier = None"
| "written_to a Ecall = None"
| "written_to a (LocalStore v) = None"
| "written_to a (LocalLoad v) = None"

text \<open>The values stored to one address, in order.\<close>

definition stores_to :: "u32 \<Rightarrow> trace \<Rightarrow> u32 list" where
  "stores_to a tr = List.map_filter (written_to a) tr"

text \<open>The UART character stream: the values stored to the UART data register, in order.\<close>

definition uart_output :: "trace \<Rightarrow> u32 list" where
  "uart_output tr = stores_to UART_ADDR tr"

fun read_of :: "event \<Rightarrow> (u32 \<times> u32) option" where
  "read_of (Read a v) = Some (a, v)"
| "read_of (Write a v) = None"
| "read_of Barrier = None"
| "read_of Ecall = None"
| "read_of (LocalStore v) = None"
| "read_of (LocalLoad v) = None"

text \<open>The loads of a trace, in order: address and value returned.\<close>

definition read_values :: "trace \<Rightarrow> (u32 \<times> u32) list" where
  "read_values tr = List.map_filter read_of tr"

text \<open>The stores that emit a string, one for each character.\<close>

definition emit :: "string \<Rightarrow> trace" where
  "emit cs = map (\<lambda>c. Write UART_ADDR (of_char c)) cs"

text \<open>
  The accesses to the volatile counter that a busy-wait from 0 to 1000 makes: the store of
  0, then for each value \<open>k\<close> from 0 to 999 the load of the test, the load of the increment
  and the store of \<open>k + 1\<close>, then the load of the test that fails, at 1000.
\<close>

definition spin_trace :: trace where
  "spin_trace =
     [LocalStore 0]
     @ concat (map (\<lambda>k. [LocalLoad k, LocalLoad k, LocalStore (k + 1)]) [0..999])
     @ [LocalLoad 1000]"

text \<open>The events the polling loop of the timer test may produce.\<close>

fun poll_event :: "event \<Rightarrow> bool" where
  "poll_event (Read a v) = (a = TIMER_STAT)"
| "poll_event (Write a v) = (a = TIMER_STAT \<and> v = 0x1)"
| "poll_event Barrier = False"
| "poll_event Ecall = False"
| "poll_event (LocalStore v) = False"
| "poll_event (LocalLoad v) = False"

subsection \<open>The hardware conventions the spec names\<close>

text \<open>
  Modelled from the spec: the idealized read-back peripheral of the readback test
  (8, Testable properties), whose hardware description is not among the sources. A load
  returns the value last stored to its address, and 0 when nothing was stored there.
\<close>

definition readback_model :: hw where
  "readback_model tr a = (case stores_to a tr of [] \<Rightarrow> 0 | v # vs \<Rightarrow> last (v # vs))"

text \<open>
  Modelled from the spec: the write-1-to-clear convention of the glossary, for the timer's
  status register, whose hardware description is not among the sources. Storing \<open>v\<close> to a
  register that holds \<open>old\<close> clears the bits that are 1 in \<open>v\<close>; a 0 has no effect.
\<close>

definition w1c :: "u32 \<Rightarrow> u32 \<Rightarrow> u32" where
  "w1c old v = old AND NOT v"

subsection \<open>What the spec says \<^verbatim>\<open>print_hex\<close> emits\<close>

text \<open>
  The spec's words, not the code: 8 uppercase hexadecimal digits, most significant nibble
  first. \<open>spec_hex8\<close> writes the digits of the number in base 16, and \<open>spec_hex_value\<close>
  reads a digit string back, first character most significant.
\<close>

definition spec_hex8 :: "u32 \<Rightarrow> string" where
  "spec_hex8 v =
     map (\<lambda>k. ''0123456789ABCDEF'' ! ((unat v div 16 ^ k) mod 16)) [7, 6, 5, 4, 3, 2, 1, 0]"

definition spec_digit_value :: "char \<Rightarrow> nat" where
  "spec_digit_value c = (if of_char c < (65::nat) then of_char c - 48 else of_char c - 55)"

definition spec_hex_value :: "string \<Rightarrow> nat" where
  "spec_hex_value cs = foldl (\<lambda>a c. 16 * a + spec_digit_value c) 0 cs"

section \<open>Properties of the output routines\<close>

subsection \<open>Nibbles and the digit table\<close>

lemma m15: "(15 :: 32 word) = mask 4"
  by (simp add: mask_eq_exp_minus_1)

lemma nibble_unat: "unat (drop_bit n (v :: u32) AND 0xF) = (unat v div 2 ^ n) mod 16"
proof -
  have "unat (drop_bit n v AND 0xF) = unat (take_bit 4 (drop_bit n v))"
    by (simp only: m15 take_bit_eq_mask)
  also have "\<dots> = take_bit 4 (drop_bit n (unat v))"
    by (simp only: unsigned_take_bit_eq unat_drop_bit_eq)
  also have "\<dots> = (unat v div 2 ^ n) mod 16"
    by (simp add: take_bit_eq_mod drop_bit_eq_div)
  finally show ?thesis .
qed

lemma nibble_lt: "unat ((w :: u32) AND 0xF) < 16"
  using nibble_unat [of 0 w] by simp

lemma length_hex: "length hex = 17"
  by (simp add: hex_def)

lemma hex_nth: "n < 16 \<Longrightarrow> hex ! n = ''0123456789ABCDEF'' ! n"
  unfolding hex_def by (subst nth_append) simp

lemma hex_at_digit: "n < 16 \<Longrightarrow> hex_at n = Inr (''0123456789ABCDEF'' ! n)"
  by (simp add: hex_at_def length_hex hex_nth)

lemma pow2_nibbles: "0 \<le> i \<Longrightarrow> (2::nat) ^ nat (i * 4) = 16 ^ nat i"
proof -
  assume "0 \<le> i"
  then have "nat (i * 4) = 4 * nat i" by simp
  then show ?thesis by (simp add: power_mult)
qed

subsection \<open>The loop of \<^verbatim>\<open>print_hex\<close>, unrolled\<close>

lemma print_hex_loop_neg: "i < 0 \<Longrightarrow> print_hex_loop v i tr = Inr tr"
  by simp

lemma print_hex_loop_step:
  "0 \<le> i \<Longrightarrow> i < 8 \<Longrightarrow>
   print_hex_loop v i tr =
     print_hex_loop v (i - 1)
       (tr @ [Write UART_ADDR (of_char (''0123456789ABCDEF'' ! ((unat v div 16 ^ nat i) mod 16)))])"
  apply (subst print_hex_loop.simps)
  apply (simp add: shr_def hex_at_digit nibble_lt uart_putc_def store_def nibble_unat pow2_nibbles
           del: print_hex_loop.simps)
  done

lemma print_hex_emit: "print_hex v tr = Inr (tr @ emit (spec_hex8 v))"
  unfolding print_hex_def
  apply (subst print_hex_loop_step, simp, simp)
  apply (subst print_hex_loop_step, simp, simp)
  apply (subst print_hex_loop_step, simp, simp)
  apply (subst print_hex_loop_step, simp, simp)
  apply (subst print_hex_loop_step, simp, simp)
  apply (subst print_hex_loop_step, simp, simp)
  apply (subst print_hex_loop_step, simp, simp)
  apply (subst print_hex_loop_step, simp, simp)
  apply (simp add: emit_def spec_hex8_def print_hex_loop_neg del: print_hex_loop.simps)
  done

subsection \<open>The digits read back give the number\<close>

lemma lt16_cases:
  "(d::nat) < 16 \<Longrightarrow> d = 0 \<or> d = 1 \<or> d = 2 \<or> d = 3 \<or> d = 4 \<or> d = 5 \<or> d = 6 \<or> d = 7 \<or>
     d = 8 \<or> d = 9 \<or> d = 10 \<or> d = 11 \<or> d = 12 \<or> d = 13 \<or> d = 14 \<or> d = 15"
  by arith

lemma digit_value_table: "d < 16 \<Longrightarrow> spec_digit_value (''0123456789ABCDEF'' ! d) = d"
  by (drule lt16_cases) (auto simp: spec_digit_value_def)

lemma digit_value_nibble:
  "spec_digit_value (''0123456789ABCDEF'' ! (n mod 16)) = n mod 16"
  by (rule digit_value_table) simp

lemma hex_expand:
  fixes n :: nat
  assumes "n < 2 ^ 32"
  shows "16 * (16 * (16 * (16 * (16 * (16 * (16 * (16 * 0 + n div 16 ^ 7 mod 16)
            + n div 16 ^ 6 mod 16) + n div 16 ^ 5 mod 16) + n div 16 ^ 4 mod 16)
            + n div 16 ^ 3 mod 16) + n div 16 ^ 2 mod 16) + n div 16 ^ 1 mod 16)
            + n div 16 ^ 0 mod 16 = n"
proof -
  have s: "16 * (n div (m * 16)) + n div m mod 16 = n div m" for m
    by (simp add: div_mult2_eq)
  have e8: "16 * 0 + n div 16 ^ 7 mod 16 = n div 16 ^ 7"
    using assms by simp
  have e7: "16 * (n div 16 ^ 7) + n div 16 ^ 6 mod 16 = n div 16 ^ 6"
    using s [of "16 ^ 6"] by simp
  have e6: "16 * (n div 16 ^ 6) + n div 16 ^ 5 mod 16 = n div 16 ^ 5"
    using s [of "16 ^ 5"] by simp
  have e5: "16 * (n div 16 ^ 5) + n div 16 ^ 4 mod 16 = n div 16 ^ 4"
    using s [of "16 ^ 4"] by simp
  have e4: "16 * (n div 16 ^ 4) + n div 16 ^ 3 mod 16 = n div 16 ^ 3"
    using s [of "16 ^ 3"] by simp
  have e3: "16 * (n div 16 ^ 3) + n div 16 ^ 2 mod 16 = n div 16 ^ 2"
    using s [of "16 ^ 2"] by simp
  have e2: "16 * (n div 16 ^ 2) + n div 16 ^ 1 mod 16 = n div 16 ^ 1"
    using s [of "16 ^ 1"] by simp
  have e1: "16 * (n div 16 ^ 1) + n div 16 ^ 0 mod 16 = n"
    using s [of "16 ^ 0"] by simp
  show ?thesis
    by (simp only: e8 e7 e6 e5 e4 e3 e2 e1)
qed

lemma spec_hex_value_hex8: "spec_hex_value (spec_hex8 v) = unat v"
proof -
  have "unat v < 2 ^ 32" using unsigned_less [of v] by simp
  then show ?thesis
    by (simp only: spec_hex_value_def spec_hex8_def list.map foldl.simps digit_value_nibble
          hex_expand)
qed

lemma length_spec_hex8: "length (spec_hex8 v) = 8"
  by (simp add: spec_hex8_def)

lemma set_spec_hex8: "set (spec_hex8 v) \<subseteq> set ''0123456789ABCDEF''"
  unfolding spec_hex8_def set_map by (rule image_subsetI) (rule nth_mem, simp)

lemma spec_hex8_A5: "spec_hex8 0xA5 = ''000000A5''"
  by (simp add: spec_hex8_def)

subsection \<open>Strings and the delay loop\<close>

lemma print_string_emit:
  "CHR 0x00 \<notin> set cs \<Longrightarrow> print_string (cs @ CHR 0x00 # rest) tr = Inr (tr @ emit cs)"
  by (induction cs arbitrary: tr) (auto simp: emit_def uart_putc_def store_def)

lemma print_string_literal:
  "CHR 0x00 \<notin> set cs \<Longrightarrow> print_string (literal cs) tr = Inr (tr @ emit cs)"
  unfolding literal_def by (rule print_string_emit)

lemma delay_result:
  "delay i tr =
     (max i 1000,
      tr @ concat (map (\<lambda>k. [LocalLoad k, LocalLoad k, LocalStore (k + 1)]) [i..999])
         @ [LocalLoad (max i 1000)])"
proof (induction i tr rule: delay.induct)
  case (1 i tr)
  show ?case
  proof (cases "i < 1000")
    case True
    then have u: "[i..999] = i # [i + 1..999]"
      by (simp add: upto_rec1)
    from True have m: "max i 1000 = max (i + 1) 1000"
      by simp
    show ?thesis
      by (subst delay.simps) (simp only: True if_True "1.IH" [OF True] u m list.map concat.simps
            append_assoc append.simps)
  next
    case False
    then have u: "[i..999] = []"
      by simp
    from False have m: "max i 1000 = i"
      by simp
    show ?thesis
      by (subst delay.simps) (simp only: False if_False u m list.map concat.simps append.simps)
  qed
qed

lemma delay_from_reset: "delay 0 (tr @ [LocalStore 0]) = (1000, tr @ spin_trace)"
  by (simp only: delay_result spin_trace_def append_assoc) simp

section \<open>Properties of the traces\<close>

subsection \<open>Observations distribute over a trace\<close>

lemmas addr_defs = IO_BASE_def UART_ADDR_def GPIO_ADDR_def GPIO_BASE_def GPIO_DATA_def
  GPIO_DIR_def GPIO_READ_def TIMER_BASE_def TIMER_CTRL_def TIMER_LOAD_def TIMER_STAT_def

lemma addr_distinct:
  "UART_ADDR \<noteq> GPIO_ADDR" "UART_ADDR \<noteq> GPIO_DATA" "UART_ADDR \<noteq> GPIO_DIR"
  "UART_ADDR \<noteq> GPIO_READ" "UART_ADDR \<noteq> TIMER_CTRL" "UART_ADDR \<noteq> TIMER_LOAD"
  "UART_ADDR \<noteq> TIMER_STAT"
  by (simp_all add: addr_defs)

lemma map_filter_append:
  "List.map_filter f (xs @ ys) = List.map_filter f xs @ List.map_filter f ys"
  by (simp add: List.map_filter_def)

lemma uart_output_append: "uart_output (xs @ ys) = uart_output xs @ uart_output ys"
  by (simp add: uart_output_def stores_to_def map_filter_append)

lemma uart_output_emit: "uart_output (emit cs) = map of_char cs"
  by (induction cs) (simp_all add: uart_output_def stores_to_def emit_def)

lemma addresses_append: "addresses (xs @ ys) = addresses xs @ addresses ys"
  by (simp add: addresses_def map_filter_append)

lemma addresses_emit: "addresses (emit cs) = replicate (length cs) UART_ADDR"
  by (induction cs) (simp_all add: addresses_def emit_def)

lemma read_values_append: "read_values (xs @ ys) = read_values xs @ read_values ys"
  by (simp add: read_values_def map_filter_append)

lemma read_values_emit: "read_values (emit cs) = []"
  by (induction cs) (simp_all add: read_values_def emit_def)

text \<open>The accesses to the local counter are no register accesses.\<close>

lemma counter_silent:
  "stores_to a (concat (map (\<lambda>k. [LocalLoad k, LocalLoad k, LocalStore (k + 1)]) ks)) = []"
  "read_values (concat (map (\<lambda>k. [LocalLoad k, LocalLoad k, LocalStore (k + 1)]) ks)) = []"
  "addresses (concat (map (\<lambda>k. [LocalLoad k, LocalLoad k, LocalStore (k + 1)]) ks)) = []"
  by (induction ks) (simp_all add: stores_to_def read_values_def addresses_def)

lemma uart_output_spin: "uart_output spin_trace = []"
  unfolding spin_trace_def uart_output_def stores_to_def map_filter_append
  by (simp only: counter_silent [unfolded stores_to_def]) simp

lemma read_values_spin: "read_values spin_trace = []"
  unfolding spin_trace_def read_values_def map_filter_append
  by (simp only: counter_silent [unfolded read_values_def]) simp

lemma addresses_spin: "addresses spin_trace = []"
  unfolding spin_trace_def addresses_def map_filter_append
  by (simp only: counter_silent [unfolded addresses_def]) simp

lemma length_spin: "length spin_trace = 3002"
  by (simp add: spin_trace_def length_concat comp_def sum_list_triv)

subsection \<open>The traces of the two GPIO tests\<close>

lemma gpio_test_main_trace:
  "gpio_test_main h [] =
     Inr (0, [Write GPIO_ADDR 0xA5, Barrier,
              Read GPIO_ADDR (h [Write GPIO_ADDR 0xA5, Barrier] GPIO_ADDR)]
             @ emit ''GPIO readback = ''
             @ emit (spec_hex8 (h [Write GPIO_ADDR 0xA5, Barrier] GPIO_ADDR))
             @ emit [CHR 0x0A] @ [Ecall])"
  by (simp add: gpio_test_main_def store_def barrier_def load_def ecall_def Let_def
        print_string_literal print_hex_emit)

lemma gpio_ctrl_test_main_trace:
  "gpio_ctrl_test_main h [] =
     Inr (0, [Write GPIO_DIR 0x1F, Write GPIO_DATA 0xA] @ spin_trace
             @ [Read GPIO_READ (h ([Write GPIO_DIR 0x1F, Write GPIO_DATA 0xA] @ spin_trace)
                                GPIO_READ)]
             @ emit ''GPIO READ = ''
             @ emit (spec_hex8 (h ([Write GPIO_DIR 0x1F, Write GPIO_DATA 0xA] @ spin_trace)
                                GPIO_READ))
             @ emit [CHR 0x0A] @ [Ecall])"
proof -
  have d: "delay 0 [Write GPIO_DIR 0x1F, Write GPIO_DATA 0xA, LocalStore 0] =
      (1000, [Write GPIO_DIR 0x1F, Write GPIO_DATA 0xA] @ spin_trace)"
    using delay_from_reset [of "[Write GPIO_DIR 0x1F, Write GPIO_DATA 0xA]"]
    by (simp del: delay.simps)
  show ?thesis
    by (simp add: gpio_ctrl_test_main_def store_def load_def ecall_def Let_def d
          io_print_string_def io_print_hex_def print_string_literal print_hex_emit
          del: delay.simps)
qed

lemma readback_after_store: "readback_model [Write GPIO_ADDR 0xA5, Barrier] GPIO_ADDR = 0xA5"
  by (simp add: readback_model_def stores_to_def)

lemma gpio_test_observed:
  assumes "gpio_test_main h [] = Inr (r, t)"
  shows "read_values t = [(GPIO_ADDR, h [Write GPIO_ADDR 0xA5, Barrier] GPIO_ADDR)]
      \<and> uart_output t = map of_char (''GPIO readback = ''
            @ spec_hex8 (h [Write GPIO_ADDR 0xA5, Barrier] GPIO_ADDR) @ [CHR 0x0A])"
proof -
  let ?val = "h [Write GPIO_ADDR 0xA5, Barrier] GPIO_ADDR"
  let ?t = "[Write GPIO_ADDR 0xA5, Barrier, Read GPIO_ADDR ?val]
               @ emit ''GPIO readback = '' @ emit (spec_hex8 ?val) @ emit [CHR 0x0A] @ [Ecall]"
  have t: "t = ?t"
    using assms by (simp only: gpio_test_main_trace) simp
  have u: "uart_output ?t = map of_char (''GPIO readback = '' @ spec_hex8 ?val @ [CHR 0x0A])"
    by (simp only: uart_output_append uart_output_emit)
       (simp add: uart_output_def stores_to_def addr_distinct [symmetric])
  have r: "read_values ?t = [(GPIO_ADDR, ?val)]"
    by (simp only: read_values_append read_values_emit) (simp add: read_values_def)
  show ?thesis
    using u r by (simp only: t simp_thms)
qed

lemma gpio_ctrl_test_observed:
  assumes "gpio_ctrl_test_main h [] = Inr (r, t)"
  shows "read_values t =
           [(GPIO_READ, h ([Write GPIO_DIR 0x1F, Write GPIO_DATA 0xA] @ spin_trace) GPIO_READ)]
      \<and> uart_output t = map of_char (''GPIO READ = ''
            @ spec_hex8 (h ([Write GPIO_DIR 0x1F, Write GPIO_DATA 0xA] @ spin_trace) GPIO_READ)
            @ [CHR 0x0A])"
proof -
  let ?val = "h ([Write GPIO_DIR 0x1F, Write GPIO_DATA 0xA] @ spin_trace) GPIO_READ"
  let ?t = "[Write GPIO_DIR 0x1F, Write GPIO_DATA 0xA] @ spin_trace @ [Read GPIO_READ ?val]
               @ emit ''GPIO READ = '' @ emit (spec_hex8 ?val) @ emit [CHR 0x0A] @ [Ecall]"
  have t: "t = ?t"
    using assms by (simp only: gpio_ctrl_test_main_trace) simp
  have u: "uart_output ?t = map of_char (''GPIO READ = '' @ spec_hex8 ?val @ [CHR 0x0A])"
    by (simp only: uart_output_append uart_output_emit uart_output_spin)
       (simp add: uart_output_def stores_to_def addr_distinct [symmetric])
  have r: "read_values ?t = [(GPIO_READ, ?val)]"
    by (simp only: read_values_append read_values_emit read_values_spin)
       (simp add: read_values_def)
  show ?thesis
    using u r by (simp only: t simp_thms)
qed

lemma addresses_gpio_test:
  "\<exists>t. gpio_test_main h [] = Inr (0, t) \<and> set (addresses t) = {GPIO_ADDR, UART_ADDR}"
proof -
  let ?val = "h [Write GPIO_ADDR 0xA5, Barrier] GPIO_ADDR"
  let ?t = "[Write GPIO_ADDR 0xA5, Barrier, Read GPIO_ADDR ?val]
              @ emit ''GPIO readback = '' @ emit (spec_hex8 ?val) @ emit [CHR 0x0A] @ [Ecall]"
  have "set (addresses ?t) = {GPIO_ADDR, UART_ADDR}"
    by (simp only: addresses_append addresses_emit) (auto simp: addresses_def)
  then show ?thesis
    using gpio_test_main_trace [of h] by blast
qed

lemma addresses_gpio_ctrl_test:
  "\<exists>t. gpio_ctrl_test_main h [] = Inr (0, t)
       \<and> set (addresses t) = {GPIO_DIR, GPIO_DATA, GPIO_READ, UART_ADDR}"
proof -
  let ?val = "h ([Write GPIO_DIR 0x1F, Write GPIO_DATA 0xA] @ spin_trace) GPIO_READ"
  let ?t = "[Write GPIO_DIR 0x1F, Write GPIO_DATA 0xA] @ spin_trace @ [Read GPIO_READ ?val]
              @ emit ''GPIO READ = '' @ emit (spec_hex8 ?val) @ emit [CHR 0x0A] @ [Ecall]"
  have "set (addresses ?t) = {GPIO_DIR, GPIO_DATA, GPIO_READ, UART_ADDR}"
    by (simp only: addresses_append addresses_emit addresses_spin) (auto simp: addresses_def)
  then show ?thesis
    using gpio_ctrl_test_main_trace [of h] by blast
qed

subsection \<open>The timer test\<close>

lemma timer_init_events:
  "timer_init tr = tr @ [Write TIMER_CTRL 0, Write TIMER_LOAD 12000000, Write TIMER_CTRL 0x3]"
  by (simp add: timer_init_def store_def)

lemma timer_body_events:
  "timer_body h tr =
     tr @ (let s = h tr TIMER_STAT
           in Read TIMER_STAT s # (if s AND 0x1 \<noteq> 0 then [Write TIMER_STAT 0x1] else []))"
  by (simp add: timer_body_def load_def store_def Let_def)

text \<open>The loop returns no value: a returned value would have come from a shorter run.\<close>

lemma timer_loop_None: "timer_loop h tr = None"
proof -
  have "False" if r: "timer_loop h tr = Some y" for y
    by (rule timer_loop.raw_induct [where P = "\<lambda>_ _ _. False", OF _ r]) blast
  then show ?thesis by (cases "timer_loop h tr") auto
qed

lemma timer_run_Suc:
  "timer_test2_run (Suc n) h tr0 = timer_body h (timer_test2_run n h tr0)"
  by (simp add: timer_test2_run_def)

lemma timer_run_step:
  "timer_test2_run (Suc n) h tr0 =
     timer_test2_run n h tr0
       @ (let s = h (timer_test2_run n h tr0) TIMER_STAT
          in Read TIMER_STAT s # (if s AND 0x1 \<noteq> 0 then [Write TIMER_STAT 0x1] else []))"
  by (simp only: timer_run_Suc timer_body_events)

lemma timer_run_poll:
  "\<exists>evs. timer_test2_run n h tr0 = timer_init tr0 @ evs \<and> list_all poll_event evs"
proof (induction n)
  case 0
  then show ?case by (simp add: timer_test2_run_def)
next
  case (Suc n)
  then obtain evs
    where e: "timer_test2_run n h tr0 = timer_init tr0 @ evs" "list_all poll_event evs"
    by blast
  show ?case
    by (rule exI [of _ "evs @ (let s = h (timer_test2_run n h tr0) TIMER_STAT
           in Read TIMER_STAT s # (if s AND 0x1 \<noteq> 0 then [Write TIMER_STAT 0x1] else []))"])
       (simp add: timer_run_Suc timer_body_events e Let_def)
qed

lemma timer_run_drop: "list_all poll_event (drop 3 (timer_test2_run n h []))"
  using timer_run_poll [of n h "[]"] by (auto simp: timer_init_events)

lemma timer_run_take:
  "take 3 (timer_test2_run n h []) =
     [Write TIMER_CTRL 0, Write TIMER_LOAD 12000000, Write TIMER_CTRL 0x3]"
  using timer_run_poll [of n h "[]"] by (auto simp: timer_init_events)

lemma uart_output_poll: "list_all poll_event evs \<Longrightarrow> uart_output evs = []"
proof (induction evs)
  case Nil
  then show ?case by (simp add: uart_output_def stores_to_def)
next
  case (Cons e evs)
  then show ?case
    by (cases e) (auto simp: uart_output_def stores_to_def addr_distinct [symmetric])
qed

lemma uart_output_timer_run: "uart_output (timer_test2_run n h []) = []"
proof -
  obtain evs where e: "timer_test2_run n h [] = timer_init [] @ evs" "list_all poll_event evs"
    using timer_run_poll by blast
  show ?thesis
    by (simp add: e uart_output_append uart_output_poll)
       (simp add: timer_init_events uart_output_def stores_to_def addr_distinct [symmetric])
qed

lemma addresses_poll: "list_all poll_event evs \<Longrightarrow> set (addresses evs) \<subseteq> {TIMER_STAT}"
proof (induction evs)
  case Nil
  then show ?case by (simp add: addresses_def)
next
  case (Cons e evs)
  then show ?case by (cases e) (auto simp: addresses_def)
qed

lemma addresses_timer_test2:
  "set (addresses (timer_test2_run n h [])) \<subseteq> {TIMER_CTRL, TIMER_LOAD, TIMER_STAT}"
proof -
  obtain evs where e: "timer_test2_run n h [] = timer_init [] @ evs" "list_all poll_event evs"
    using timer_run_poll by blast
  have "set (addresses (timer_init [])) \<subseteq> {TIMER_CTRL, TIMER_LOAD}"
    by (simp add: timer_init_events addresses_def)
  with addresses_poll [OF e(2)] show ?thesis
    by (auto simp: e(1) addresses_append)
qed

lemma timer_status_store:
  assumes "Write TIMER_STAT v \<in> set (timer_test2_run n h [])"
  shows "v = 0x1"
proof -
  obtain evs where e: "timer_test2_run n h [] = timer_init [] @ evs" "list_all poll_event evs"
    using timer_run_poll by blast
  have "Write TIMER_STAT v \<notin> set (timer_init [])"
    by (simp add: timer_init_events addr_defs)
  with assms e have "Write TIMER_STAT v \<in> set evs" by simp
  with e(2) have "poll_event (Write TIMER_STAT v)" unfolding list_all_iff by blast
  then show ?thesis by simp
qed

lemma bit0_test: "((s :: u32) AND 0x1 \<noteq> 0) = bit s 0"
  by (simp add: and_one_eq bit_0 odd_iff_mod_2_eq_one)

lemma w1c_one:
  "\<not> bit (w1c old 0x1) 0 \<and> (\<forall>k. k \<noteq> 0 \<longrightarrow> bit (w1c old 0x1) k = bit old k)"
  by (auto simp: w1c_def bit_and_iff bit_not_iff bit_1_iff dest: bit_imp_le_length)

section \<open>The claims\<close>

text \<open>
  C1. For every 32-bit value \<open>v\<close>, \<^verbatim>\<open>print_hex\<close> returns normally and appends to the trace
  exactly one UART store for each character of \<open>spec_hex8 v\<close>. That string has 8
  characters, all among \<open>0-9A-F\<close> (so there is no \<open>0x\<close> prefix), and read back as a base-16
  number with the first character most significant it is \<open>v\<close>. For 0 the characters are
  \<open>00000000\<close> and for \<open>0xFFFFFFFF\<close> they are \<open>FFFFFFFF\<close>.
\<close>

theorem print_hex_eight_digits:
  "print_hex v tr = Inr (tr @ map (\<lambda>c. Write UART_ADDR (of_char c)) (spec_hex8 v))
   \<and> length (spec_hex8 v) = 8
   \<and> set (spec_hex8 v) \<subseteq> set ''0123456789ABCDEF''
   \<and> spec_hex_value (spec_hex8 v) = unat v
   \<and> print_hex 0x00000000 tr = Inr (tr @ map (\<lambda>c. Write UART_ADDR (of_char c)) ''00000000'')
   \<and> print_hex 0xFFFFFFFF tr = Inr (tr @ map (\<lambda>c. Write UART_ADDR (of_char c)) ''FFFFFFFF'')"
proof -
  have z: "spec_hex8 0x00000000 = ''00000000''" by (simp add: spec_hex8_def)
  have f: "spec_hex8 0xFFFFFFFF = ''FFFFFFFF''" by (simp add: spec_hex8_def)
  show ?thesis
    using print_hex_emit [of 0 tr] print_hex_emit [of "0xFFFFFFFF" tr]
    by (simp only: z f print_hex_emit length_spec_hex8 set_spec_hex8 spec_hex_value_hex8 emit_def
        simp_thms)
qed

theorem print_hex_eight_digits_witness:
  "print_hex 0x1234ABCD [] = Inr (map (\<lambda>c. Write UART_ADDR (of_char c)) ''1234ABCD'')
   \<and> spec_hex_value ''1234ABCD'' = 0x1234ABCD"
  using print_hex_eight_digits [of "0x1234ABCD" "[]"] by (simp add: spec_hex8_def)

text \<open>
  C2. For a character array that holds the characters \<open>cs\<close>, none of them the terminator,
  then the terminator, then anything, \<^verbatim>\<open>print_string\<close> returns normally and appends to the
  trace one UART store for each character of \<open>cs\<close>, in order, and nothing for the
  terminator or for what follows it; the UART character stream of these stores is \<open>cs\<close>.
  When the array starts with the terminator the trace is unchanged.
\<close>

theorem print_string_emits_until_terminator:
  "(CHR 0x00 \<notin> set cs \<longrightarrow>
      print_string (cs @ CHR 0x00 # rest) tr = Inr (tr @ map (\<lambda>c. Write UART_ADDR (of_char c)) cs)
      \<and> uart_output (map (\<lambda>c. Write UART_ADDR (of_char c)) cs) = map of_char cs)
   \<and> print_string (CHR 0x00 # rest) tr = Inr tr"
  using print_string_emit [of cs rest tr] uart_output_emit [of cs] by (simp add: emit_def)

theorem print_string_emits_until_terminator_witness:
  "CHR 0x00 \<notin> set ''Hi''
   \<and> print_string (''Hi'' @ CHR 0x00 # ''junk'') [] = Inr [Write UART_ADDR 0x48, Write UART_ADDR 0x69]"
  using print_string_emits_until_terminator [of "''Hi''" "''junk''" "[]"] by simp

text \<open>
  C3. Started from reset, the readback test returns 0 and its trace is, in order: the store
  of \<open>0xA5\<close> to the GPIO register, the barrier, one load of that register, the UART stores
  of \<open>GPIO readback = \<close>, of the 8 hexadecimal digits of the value loaded and of a newline,
  and the trap. With the idealized read-back peripheral the load returns \<open>0xA5\<close> and the
  digits are \<open>000000A5\<close>.
\<close>

theorem gpio_test_main_sequence:
  "gpio_test_main h [] =
     (let val = h [Write GPIO_ADDR 0xA5, Barrier] GPIO_ADDR
      in Inr (0, [Write GPIO_ADDR 0xA5, Barrier, Read GPIO_ADDR val]
                 @ emit ''GPIO readback = '' @ emit (spec_hex8 val) @ emit [CHR 0x0A]
                 @ [Ecall]))
   \<and> gpio_test_main readback_model [] =
       Inr (0, [Write GPIO_ADDR 0xA5, Barrier, Read GPIO_ADDR 0xA5]
               @ emit ''GPIO readback = '' @ emit ''000000A5'' @ emit [CHR 0x0A]
               @ [Ecall])
   \<and> (\<exists>t. gpio_test_main readback_model [] = Inr (0, t)
          \<and> uart_output t = map of_char (''GPIO readback = 000000A5'' @ [CHR 0x0A]))"
proof -
  have a: "gpio_test_main readback_model [] =
       Inr (0, [Write GPIO_ADDR 0xA5, Barrier, Read GPIO_ADDR 0xA5]
               @ emit ''GPIO readback = '' @ emit ''000000A5'' @ emit [CHR 0x0A]
               @ [Ecall])"
    by (simp only: gpio_test_main_trace readback_after_store spec_hex8_A5)
  have b: "uart_output ([Write GPIO_ADDR 0xA5, Barrier, Read GPIO_ADDR 0xA5]
               @ emit ''GPIO readback = '' @ emit ''000000A5'' @ emit [CHR 0x0A]
               @ [Ecall]) = map of_char (''GPIO readback = 000000A5'' @ [CHR 0x0A])"
    by (simp only: uart_output_append uart_output_emit)
       (simp add: uart_output_def stores_to_def addr_distinct [symmetric])
  show ?thesis
    using a b by (simp only: gpio_test_main_trace Let_def simp_thms) blast
qed

theorem gpio_test_main_sequence_witness:
  "gpio_test_main (\<lambda>tr a. 0xDEADBEEF) [] =
     Inr (0, [Write GPIO_ADDR 0xA5, Barrier, Read GPIO_ADDR 0xDEADBEEF]
             @ emit ''GPIO readback = '' @ emit ''DEADBEEF'' @ emit [CHR 0x0A] @ [Ecall])"
  using gpio_test_main_sequence [of "\<lambda>tr a. 0xDEADBEEF"] by (simp add: spec_hex8_def)

text \<open>
  C4. Started from reset, the direction/write/read test returns 0 and its trace is, in
  order: the store of \<open>0x0000001F\<close> to the direction register; the store of \<open>0x0000000A\<close>
  to the data register; the busy-wait, which is the store of 0 to the volatile counter,
  then for each value from 0 to 999 the load of the test, the load of the increment and
  the store of the next value, then the load of 1000 that ends the loop; one load of the
  read register; the UART stores of \<open>GPIO READ = \<close>, of the 8 hexadecimal digits of the
  value loaded and of a newline; and the trap. The busy-wait leaves the counter at 1000
  and accesses no register: its 3002 events have no address and no UART output. This
  holds for every hardware \<open>h\<close>, so for every value the load may return: the program has no
  path that depends on it.
\<close>

theorem gpio_ctrl_test_main_sequence:
  "(let spin = [LocalStore 0]
                @ concat (map (\<lambda>k. [LocalLoad k, LocalLoad k, LocalStore (k + 1)]) [0..999])
                @ [LocalLoad 1000];
        val = h ([Write GPIO_DIR 0x0000001F, Write GPIO_DATA 0x0000000A] @ spin) GPIO_READ
    in gpio_ctrl_test_main h [] =
         Inr (0, [Write GPIO_DIR 0x0000001F, Write GPIO_DATA 0x0000000A] @ spin
                 @ [Read GPIO_READ val]
                 @ emit ''GPIO READ = '' @ emit (spec_hex8 val) @ emit [CHR 0x0A]
                 @ [Ecall])
       \<and> delay 0 (tr @ [LocalStore 0]) = (1000, tr @ spin)
       \<and> length spin = 3002 \<and> addresses spin = [] \<and> uart_output spin = []
       \<and> (\<exists>t. gpio_ctrl_test_main h [] = Inr (0, t)
              \<and> uart_output t = map of_char (''GPIO READ = '' @ spec_hex8 val @ [CHR 0x0A])
              \<and> read_values t = [(GPIO_READ, val)]))"
proof -
  obtain t where m: "gpio_ctrl_test_main h [] = Inr (0, t)"
    by (simp only: gpio_ctrl_test_main_trace)
  show ?thesis
    unfolding Let_def spin_trace_def [symmetric]
    using gpio_ctrl_test_observed [OF m] m gpio_ctrl_test_main_trace [of h]
      delay_from_reset [of tr] length_spin addresses_spin uart_output_spin
    by blast
qed

theorem gpio_ctrl_test_main_sequence_witness:
  "gpio_ctrl_test_main (\<lambda>tr a. 0x0000000A) [] =
     Inr (0, [Write GPIO_DIR 0x1F, Write GPIO_DATA 0xA] @ spin_trace @ [Read GPIO_READ 0xA]
             @ emit ''GPIO READ = '' @ emit ''0000000A'' @ emit [CHR 0x0A] @ [Ecall])
   \<and> length spin_trace = 3002"
proof -
  have d: "spec_hex8 0xA = ''0000000A''"
    by (simp add: spec_hex8_def)
  show ?thesis
    using gpio_ctrl_test_main_sequence [of "\<lambda>tr a. 0x0000000A" "[]"]
    unfolding Let_def spin_trace_def [symmetric] d
    by blast
qed

text \<open>
  C5. The timer test starts with exactly three stores, in this order: 0 to the control
  register, 12000000 to the load register, \<open>0x3\<close> to the control register. They are the
  first three events of every run, whatever the hardware and however long the run; every
  later event is a load of the status register or a store to it, so there is no fourth
  store to the control or load register. Bits 0 (enable) and 1 (periodic mode) of \<open>0x3\<close>
  are set.
\<close>

theorem timer_init_three_writes:
  "timer_init tr0 = tr0 @ [Write TIMER_CTRL 0, Write TIMER_LOAD 12000000, Write TIMER_CTRL 0x3]
   \<and> timer_test2_run 0 h [] =
       [Write TIMER_CTRL 0, Write TIMER_LOAD 12000000, Write TIMER_CTRL 0x3]
   \<and> take 3 (timer_test2_run n h []) =
       [Write TIMER_CTRL 0, Write TIMER_LOAD 12000000, Write TIMER_CTRL 0x3]
   \<and> list_all poll_event (drop 3 (timer_test2_run n h []))
   \<and> bit (0x3 :: u32) 0 \<and> bit (0x3 :: u32) 1"
proof -
  have b: "bit (0x3 :: u32) 0 \<and> bit (0x3 :: u32) 1"
    by simp
  have z: "timer_test2_run 0 h [] =
      [Write TIMER_CTRL 0, Write TIMER_LOAD 12000000, Write TIMER_CTRL 0x3]"
    by (simp add: timer_test2_run_def timer_init_events)
  show ?thesis
    using b z by (simp only: timer_init_events timer_run_take timer_run_drop simp_thms)
qed

theorem timer_init_three_writes_witness:
  "take 3 (timer_test2_run (Suc (Suc 0)) (\<lambda>tr a. 1) []) =
       [Write TIMER_CTRL 0, Write TIMER_LOAD 12000000, Write TIMER_CTRL 0x3]"
  using timer_init_three_writes [of "[]" "\<lambda>tr a. 1" "Suc (Suc 0)"] by simp

text \<open>
  C6. The timer test never returns, whatever the hardware answers. Each pass of its loop
  appends to the trace one load of the status register and, exactly when bit 0 of the
  value loaded is set (the test \<^verbatim>\<open>TIMER_STAT & 0x1\<close>), one store of 1 to the status register.
  So after the three initial stores a run holds only loads of the status register and
  stores of 1 to it, and its UART character stream is empty.
\<close>

theorem timer_polls_forever:
  "timer_test2_main h tr0 = None
   \<and> timer_test2_run (Suc n) h tr0 =
       timer_test2_run n h tr0
         @ (let s = h (timer_test2_run n h tr0) TIMER_STAT
            in Read TIMER_STAT s # (if s AND 0x1 \<noteq> 0 then [Write TIMER_STAT 0x1] else []))
   \<and> ((st AND 0x1 \<noteq> 0) = bit (st :: u32) 0)
   \<and> list_all poll_event (drop 3 (timer_test2_run n h []))
   \<and> uart_output (timer_test2_run n h []) = []"
  using timer_run_step [of n h tr0] bit0_test [of st]
  by (simp only: timer_test2_main_def timer_loop_None timer_run_drop uart_output_timer_run
      simp_thms)

theorem timer_polls_forever_witness:
  "timer_test2_main (\<lambda>tr a. 1) [] = None
   \<and> timer_test2_run (Suc (Suc 0)) (\<lambda>tr a. 1) [] =
       [Write TIMER_CTRL 0, Write TIMER_LOAD 12000000, Write TIMER_CTRL 0x3,
        Read TIMER_STAT 1, Write TIMER_STAT 1, Read TIMER_STAT 1, Write TIMER_STAT 1]
   \<and> timer_test2_run (Suc (Suc 0)) (\<lambda>tr a. 0) [] =
       [Write TIMER_CTRL 0, Write TIMER_LOAD 12000000, Write TIMER_CTRL 0x3,
        Read TIMER_STAT 0, Read TIMER_STAT 0]"
  using timer_polls_forever [of "\<lambda>tr a. 1" "[]" "Suc 0" 1]
        timer_polls_forever [of "\<lambda>tr a. 1" "[]" "0" 1]
        timer_polls_forever [of "\<lambda>tr a. 0" "[]" "Suc 0" 1]
        timer_polls_forever [of "\<lambda>tr a. 0" "[]" "0" 1]
  by (simp add: timer_test2_run_def timer_init_events)

text \<open>
  C7. Every store to the status register that occurs in a run of the timer test, whatever
  the hardware and however long the run, stores the value 1. Under the write-1-to-clear
  convention such a store leaves bit 0 of the register clear and every other bit as it
  was.
\<close>

theorem timer_status_writes_clear_bit0:
  "Write TIMER_STAT v \<in> set (timer_test2_run n h []) \<Longrightarrow>
     v = 0x1 \<and> w1c old v = old AND NOT 0x1
     \<and> \<not> bit (w1c old v) 0 \<and> (\<forall>k. k \<noteq> 0 \<longrightarrow> bit (w1c old v) k = bit old k)"
  using timer_status_store [of v n h] w1c_one [of old] by (simp add: w1c_def)

theorem timer_status_writes_clear_bit0_witness:
  "Write TIMER_STAT 0x1 \<in> set (timer_test2_run (Suc 0) (\<lambda>tr a. 0x1) [])
   \<and> w1c 0xFF 0x1 = 0xFE \<and> \<not> bit (w1c 0xFF 0x1) 0 \<and> bit (w1c 0xFF 0x1) 1"
proof -
  have m: "Write TIMER_STAT 0x1 \<in> set (timer_test2_run (Suc 0) (\<lambda>tr a. 0x1) [])"
    by (simp add: timer_test2_run_def timer_init_events timer_body_events)
  have b: "bit (0xFF :: u32) 1" by simp
  show ?thesis
    using m b timer_status_writes_clear_bit0 [OF m, of "0xFF"] by simp
qed

text \<open>
  C8. The register addresses are laid out from the base \<open>0x00400000\<close>: the UART data
  register at base + \<open>0x04\<close>; the GPIO register of the readback test at base + \<open>0x20\<close>; the
  GPIO block of the direction/write/read test at base + \<open>0x20\<close>, with data at + \<open>0x00\<close>,
  direction at + \<open>0x04\<close> and read at + \<open>0x08\<close>; the timer block at base + \<open>0x40\<close>, with
  control at + \<open>0x00\<close>, load at + \<open>0x04\<close> and status at + \<open>0x0C\<close>. The three tests access
  these addresses and no other.
\<close>

theorem register_addresses:
  "IO_BASE = 0x00400000
   \<and> UART_ADDR = IO_BASE + 0x04 \<and> UART_ADDR = 0x00400004
   \<and> GPIO_ADDR = IO_BASE + 0x20 \<and> GPIO_ADDR = 0x00400020
   \<and> GPIO_BASE = IO_BASE + 0x20
   \<and> GPIO_DATA = GPIO_BASE + 0x00 \<and> GPIO_DIR = GPIO_BASE + 0x04 \<and> GPIO_READ = GPIO_BASE + 0x08
   \<and> TIMER_BASE = IO_BASE + 0x40
   \<and> TIMER_CTRL = TIMER_BASE + 0x00 \<and> TIMER_LOAD = TIMER_BASE + 0x04
   \<and> TIMER_STAT = TIMER_BASE + 0x0C
   \<and> (\<exists>t. gpio_test_main h [] = Inr (0, t) \<and> set (addresses t) = {GPIO_ADDR, UART_ADDR})
   \<and> (\<exists>t. gpio_ctrl_test_main h [] = Inr (0, t)
          \<and> set (addresses t) = {GPIO_DIR, GPIO_DATA, GPIO_READ, UART_ADDR})
   \<and> set (addresses (timer_test2_run n h [])) \<subseteq> {TIMER_CTRL, TIMER_LOAD, TIMER_STAT}"
proof -
  have c: "IO_BASE = 0x00400000
   \<and> UART_ADDR = IO_BASE + 0x04 \<and> UART_ADDR = 0x00400004
   \<and> GPIO_ADDR = IO_BASE + 0x20 \<and> GPIO_ADDR = 0x00400020
   \<and> GPIO_BASE = IO_BASE + 0x20
   \<and> GPIO_DATA = GPIO_BASE + 0x00 \<and> GPIO_DIR = GPIO_BASE + 0x04 \<and> GPIO_READ = GPIO_BASE + 0x08
   \<and> TIMER_BASE = IO_BASE + 0x40
   \<and> TIMER_CTRL = TIMER_BASE + 0x00 \<and> TIMER_LOAD = TIMER_BASE + 0x04
   \<and> TIMER_STAT = TIMER_BASE + 0x0C"
    by (simp add: addr_defs)
  show ?thesis
    using c addresses_gpio_test [of h] addresses_gpio_ctrl_test [of h]
      addresses_timer_test2 [of n h]
    by blast
qed

theorem register_addresses_witness:
  "set (addresses (timer_test2_run (Suc 0) (\<lambda>tr a. 1) [])) =
     {0x00400040, 0x00400044, 0x0040004C}"
  using register_addresses [of "\<lambda>tr a. 1" "Suc 0"]
  by (auto simp: timer_test2_run_def timer_init_events timer_body_events addresses_def addr_defs)

text \<open>
  C9. The index \<^verbatim>\<open>(v >> (i * 4)) & 0xF\<close> of the digit table is at most 15 for every shifted
  value, so the read of the table is inside its 16 digits (the array has 17 elements). For
  every loop index \<open>i\<close> from 0 to 7 the shift count is in range and the read succeeds, and
  \<^verbatim>\<open>print_hex\<close> never ends in an out-of-bounds read.
\<close>

theorem print_hex_index_in_bounds:
  "unat ((w :: u32) AND 0xF) \<le> 15
   \<and> hex_at (unat (w AND 0xF)) = Inr (''0123456789ABCDEF'' ! unat (w AND 0xF))
   \<and> (0 \<le> i \<and> i \<le> 7 \<longrightarrow>
        (\<exists>w'. shr v (i * 4) = Inr w' \<and> unat (w' AND 0xF) \<le> 15
              \<and> unat (w' AND 0xF) < length hex
              \<and> hex_at (unat (w' AND 0xF)) = Inr (''0123456789ABCDEF'' ! unat (w' AND 0xF))))
   \<and> print_hex v tr \<noteq> Inl OutOfBounds"
proof -
  have n: "unat (x AND 0xF) < 16" for x :: u32
    by (rule nibble_lt)
  have a: "unat (w AND 0xF) \<le> 15"
    using n [of w] by simp
  have b: "hex_at (unat (x AND 0xF)) = Inr (''0123456789ABCDEF'' ! unat (x AND 0xF))"
    for x :: u32
    by (rule hex_at_digit) (rule n)
  have l: "unat (x AND 0xF) < length hex" for x :: u32
    using n [of x] by (simp add: length_hex)
  have le: "unat (x AND 0xF) \<le> 15" for x :: u32
    using n [of x] by simp
  have c: "0 \<le> i \<and> i \<le> 7 \<longrightarrow>
        (\<exists>w'. shr v (i * 4) = Inr w' \<and> unat (w' AND 0xF) \<le> 15
              \<and> unat (w' AND 0xF) < length hex
              \<and> hex_at (unat (w' AND 0xF)) = Inr (''0123456789ABCDEF'' ! unat (w' AND 0xF)))"
    using b l le by (simp add: shr_def)
  have d: "print_hex v tr \<noteq> Inl OutOfBounds"
    by (simp add: print_hex_emit)
  show ?thesis
    using a b [of w] c d by blast
qed

theorem print_hex_index_in_bounds_witness:
  "(0::int) \<le> 1 \<and> (1::int) \<le> 7 \<and> shr 0xA5 (1 * 4) = Inr 0xA
   \<and> unat ((0xA :: u32) AND 0xF) = 10 \<and> hex_at 10 = Inr CHR ''A''"
  using print_hex_index_in_bounds [of "0xA" 1 "0xA5" "[]"]
  by (simp add: shr_def)

text \<open>
  C10. Each GPIO test makes exactly one load, of its GPIO register, and its UART character
  stream is a function of the value loaded: two runs of the same test, on any two
  hardware models, in which that load returns the same value have the same UART
  character stream.
\<close>

theorem gpio_output_determined_by_read:
  "(gpio_test_main h1 [] = Inr (r1, t1) \<and> gpio_test_main h2 [] = Inr (r2, t2)
      \<and> read_values t1 = read_values t2
    \<longrightarrow> uart_output t1 = uart_output t2 \<and> (\<exists>val. read_values t1 = [(GPIO_ADDR, val)]))
   \<and> (gpio_ctrl_test_main h1 [] = Inr (r3, t3) \<and> gpio_ctrl_test_main h2 [] = Inr (r4, t4)
      \<and> read_values t3 = read_values t4
    \<longrightarrow> uart_output t3 = uart_output t4 \<and> (\<exists>val. read_values t3 = [(GPIO_READ, val)]))"
proof (intro conjI impI; elim conjE)
  assume "gpio_test_main h1 [] = Inr (r1, t1)" "gpio_test_main h2 [] = Inr (r2, t2)"
    "read_values t1 = read_values t2"
  then show "uart_output t1 = uart_output t2"
    using gpio_test_observed [of h1 r1 t1] gpio_test_observed [of h2 r2 t2] by simp
next
  assume "gpio_test_main h1 [] = Inr (r1, t1)"
  then show "\<exists>val. read_values t1 = [(GPIO_ADDR, val)]"
    using gpio_test_observed [of h1 r1 t1] by blast
next
  assume "gpio_ctrl_test_main h1 [] = Inr (r3, t3)" "gpio_ctrl_test_main h2 [] = Inr (r4, t4)"
    "read_values t3 = read_values t4"
  then show "uart_output t3 = uart_output t4"
    using gpio_ctrl_test_observed [of h1 r3 t3] gpio_ctrl_test_observed [of h2 r4 t4] by simp
next
  assume "gpio_ctrl_test_main h1 [] = Inr (r3, t3)"
  then show "\<exists>val. read_values t3 = [(GPIO_READ, val)]"
    using gpio_ctrl_test_observed [of h1 r3 t3] by blast
qed

theorem gpio_output_determined_by_read_witness:
  "\<exists>t1 t2 t3 t4.
     gpio_test_main (\<lambda>tr a. 0xA5) [] = Inr (0, t1)
     \<and> gpio_test_main readback_model [] = Inr (0, t2)
     \<and> read_values t1 = read_values t2 \<and> uart_output t1 = uart_output t2
     \<and> gpio_ctrl_test_main (\<lambda>tr a. 0xA) [] = Inr (0, t3)
     \<and> gpio_ctrl_test_main (\<lambda>tr a. if a = GPIO_READ then 0xA else 0xFFFFFFFF) [] = Inr (0, t4)
     \<and> read_values t3 = read_values t4 \<and> uart_output t3 = uart_output t4"
proof -
  let ?g = "\<lambda>(tr :: trace) (a :: u32). if a = GPIO_READ then 0xA else (0xFFFFFFFF :: u32)"
  obtain t1 where 1: "gpio_test_main (\<lambda>tr a. 0xA5) [] = Inr (0, t1)"
    by (simp only: gpio_test_main_trace)
  obtain t2 where 2: "gpio_test_main readback_model [] = Inr (0, t2)"
    by (simp only: gpio_test_main_trace)
  obtain t3 where 3: "gpio_ctrl_test_main (\<lambda>tr a. 0xA) [] = Inr (0, t3)"
    by (simp only: gpio_ctrl_test_main_trace)
  obtain t4 where 4: "gpio_ctrl_test_main ?g [] = Inr (0, t4)"
    by (simp only: gpio_ctrl_test_main_trace)
  have r12: "read_values t1 = read_values t2"
    using gpio_test_observed [OF 1] gpio_test_observed [OF 2]
    by (simp add: readback_after_store)
  have r34: "read_values t3 = read_values t4"
    using gpio_ctrl_test_observed [OF 3] gpio_ctrl_test_observed [OF 4] by simp
  have "uart_output t1 = uart_output t2"
    using gpio_output_determined_by_read [of "\<lambda>tr a. 0xA5" 0 t1 readback_model 0 t2] 1 2 r12
    by blast
  moreover have "uart_output t3 = uart_output t4"
    using gpio_output_determined_by_read [of "\<lambda>tr a. 0xA" _ _ ?g _ _ 0 t3 0 t4] 3 4 r34
    by blast
  ultimately show ?thesis
    using 1 2 3 4 r12 r34 by blast
qed

end
